theory Spec2Isabelle
  imports Main "HOL-Library.Sublist"
begin

section \<open>Strings\<close>

text \<open>
  Text is a list of 8-bit characters; a character stands for the UTF-16 code unit of the
  same number, so the embedding covers text whose code units are below 256 and
  \<open>length\<close> is the \<open>length\<close> property of the source's strings. The one literal of
  the source with a character beyond that range (the arrow in the suggestion of the
  heading-order rule) is written as its three UTF-8 bytes; no function inspects it.
\<close>

definition isWhiteSpace :: "char \<Rightarrow> bool" where
  \<comment> \<open>White space and line terminators of ECMAScript below 256: TAB, LF, VT, FF, CR, SP, NBSP.\<close>
  "isWhiteSpace c = (of_char c \<in> set [9, 10, 11, 12, 13, 32, 160 :: nat])"

definition trim :: "string \<Rightarrow> string" where
  "trim s = rev (dropWhile isWhiteSpace (rev (dropWhile isWhiteSpace s)))"

definition toLowerCaseChar :: "char \<Rightarrow> char" where
  \<comment> \<open>A-Z, and the capital letters of Latin-1 (0xC0-0xDE without the multiplication sign).\<close>
  "toLowerCaseChar c =
     (let n = of_char c :: nat
      in if (65 \<le> n \<and> n \<le> 90) \<or> (192 \<le> n \<and> n \<le> 222 \<and> n \<noteq> 215) then char_of (n + 32) else c)"

definition toLowerCase :: "string \<Rightarrow> string" where
  "toLowerCase s = map toLowerCaseChar s"

definition asciiLower :: "char \<Rightarrow> char" where
  "asciiLower c = (let n = of_char c :: nat in if 65 \<le> n \<and> n \<le> 90 then char_of (n + 32) else c)"

definition asciiUpper :: "char \<Rightarrow> char" where
  "asciiUpper c = (let n = of_char c :: nat in if 97 \<le> n \<and> n \<le> 122 then char_of (n - 32) else c)"

fun toString :: "nat \<Rightarrow> string" where
  "toString n =
     (if n < 10 then [char_of (48 + n)] else toString (n div 10) @ [char_of (48 + n mod 10)])"

text \<open>
  \<open>parseInt\<close> with no radix argument: leading white space is skipped, a sign is read, a
  \<open>0x\<close> prefix selects radix 16, and the longest prefix of digits is the value; no digit
  gives NaN, which is \<open>None\<close>.
\<close>

definition digitValue :: "nat \<Rightarrow> char \<Rightarrow> nat option" where
  "digitValue radix c =
     (let n = of_char c :: nat;
          v = (if 48 \<le> n \<and> n \<le> 57 then Some (n - 48)
               else if 97 \<le> n \<and> n \<le> 122 then Some (n - 87)
               else if 65 \<le> n \<and> n \<le> 90 then Some (n - 55)
               else None)
      in case v of None \<Rightarrow> None | Some d \<Rightarrow> if d < radix then Some d else None)"

definition parseDigits :: "nat \<Rightarrow> string \<Rightarrow> int option" where
  "parseDigits radix s =
     (let z = takeWhile (\<lambda>c. digitValue radix c \<noteq> None) s
      in if z = [] then None
         else Some (int (fold (\<lambda>c acc. acc * radix + (case digitValue radix c of Some d \<Rightarrow> d | None \<Rightarrow> 0)) z 0)))"

definition parseInt :: "string \<Rightarrow> int option" where
  "parseInt inputString =
     (let s = dropWhile isWhiteSpace inputString;
          sign = (if take 1 s = ''-'' then - 1 else 1 :: int);
          s = (if take 1 s = ''+'' \<or> take 1 s = ''-'' then drop 1 s else s);
          hex = (take 2 s = ''0x'' \<or> take 2 s = ''0X'');
          mathInt = (if hex then parseDigits 16 (drop 2 s) else parseDigits 10 s)
      in map_option (\<lambda>m. sign * m) mathInt)"

text \<open>Comparison and addition of numbers that may be NaN: a comparison with NaN is false.\<close>

definition numGreater :: "int option \<Rightarrow> int option \<Rightarrow> bool" where
  "numGreater a b = (case (a, b) of (Some x, Some y) \<Rightarrow> y < x | _ \<Rightarrow> False)"

definition numPlus :: "int option \<Rightarrow> int \<Rightarrow> int option" where
  "numPlus a k = map_option (\<lambda>x. x + k) a"

section \<open>The document tree\<close>

text \<open>
  The document the analyzer receives from \<open>DOMParser\<close>: elements with their local name
  (lower case, as the HTML parser stores it), their attributes in source order (names in
  lower case, no duplicates) and their children; text and comment nodes.
\<close>

datatype node =
    Element string "(string \<times> string) list" "node list"
  | Text string
  | Comment string

datatype document = Document node

fun documentElement :: "document \<Rightarrow> node" where
  "documentElement (Document r) = r"

fun childNodes :: "node \<Rightarrow> node list" where
  "childNodes (Element t ats cs) = cs"
| "childNodes (Text s) = []"
| "childNodes (Comment s) = []"

fun attributes :: "node \<Rightarrow> (string \<times> string) list" where
  "attributes (Element t ats cs) = ats"
| "attributes (Text s) = []"
| "attributes (Comment s) = []"

fun isElement :: "node \<Rightarrow> string \<Rightarrow> bool" where
  "isElement (Element t ats cs) name = (t = name)"
| "isElement (Text s) name = False"
| "isElement (Comment s) name = False"

fun tagName :: "node \<Rightarrow> string" where
  "tagName (Element t ats cs) = map asciiUpper t"
| "tagName (Text s) = []"
| "tagName (Comment s) = []"

definition getAttribute :: "node \<Rightarrow> string \<Rightarrow> string option" where
  "getAttribute n name = map_of (attributes n) name"

definition hasAttribute :: "node \<Rightarrow> string \<Rightarrow> bool" where
  "hasAttribute n name = (getAttribute n name \<noteq> None)"

text \<open>
  \<open>textContent\<close> of an element: the data of its text descendants in tree order. A
  comment adds nothing to the text of the element that holds it.
\<close>

fun textContent :: "node \<Rightarrow> string" where
  "textContent (Element t ats cs) = concat (map textContent cs)"
| "textContent (Text s) = s"
| "textContent (Comment s) = []"

text \<open>The elements of a subtree in tree order, the root first.\<close>

fun elements :: "node \<Rightarrow> node list" where
  "elements (Element t ats cs) = Element t ats cs # concat (map elements cs)"
| "elements (Text s) = []"
| "elements (Comment s) = []"

subsection \<open>Selectors\<close>

text \<open>
  The selectors the analyzer uses: a comma-separated list of compound selectors, each a
  conjunction of a type selector, attribute selectors and negations.
\<close>

datatype simple_selector =
    Tag string
  | HasAttr string
  | AttrEq string string
  | NotSel simple_selector

type_synonym selector = "simple_selector list list"

definition caseInsensitiveAttrs :: "string list" where
  \<comment> \<open>Attributes whose values an HTML document compares without regard to ASCII case
      on its HTML elements; the tree has no namespaces, and the comparison is made so on
      every element.\<close>
  "caseInsensitiveAttrs =
     [''accept'', ''accept-charset'', ''align'', ''alink'', ''axis'', ''bgcolor'', ''charset'',
      ''checked'', ''clear'', ''codetype'', ''color'', ''compact'', ''declare'', ''defer'', ''dir'',
      ''direction'', ''disabled'', ''enctype'', ''face'', ''frame'', ''hreflang'', ''http-equiv'',
      ''lang'', ''language'', ''link'', ''media'', ''method'', ''multiple'', ''nohref'',
      ''noresize'', ''noshade'', ''nowrap'', ''readonly'', ''rel'', ''rev'', ''rules'', ''scope'',
      ''scrolling'', ''selected'', ''shape'', ''target'', ''text'', ''type'', ''valign'',
      ''valuetype'', ''vlink'']"

fun matchesSimple :: "simple_selector \<Rightarrow> node \<Rightarrow> bool" where
  "matchesSimple (Tag t) n = isElement n t"
| "matchesSimple (HasAttr a) n = hasAttribute n a"
| "matchesSimple (AttrEq a v) n =
     (case getAttribute n a of
        None \<Rightarrow> False
      | Some w \<Rightarrow> if a \<in> set caseInsensitiveAttrs then map asciiLower w = map asciiLower v else w = v)"
| "matchesSimple (NotSel s) n = (\<not> matchesSimple s n)"

definition matches :: "selector \<Rightarrow> node \<Rightarrow> bool" where
  "matches sel n = list_ex (\<lambda>compound. list_all (\<lambda>s. matchesSimple s n) compound) sel"

definition querySelectorAll :: "document \<Rightarrow> selector \<Rightarrow> node list" where
  "querySelectorAll doc sel = filter (matches sel) (elements (documentElement doc))"

definition querySelector :: "document \<Rightarrow> selector \<Rightarrow> node option" where
  "querySelector doc sel = (case querySelectorAll doc sel of [] \<Rightarrow> None | e # _ \<Rightarrow> Some e)"

definition elementQuerySelectorAll :: "node \<Rightarrow> selector \<Rightarrow> node list" where
  \<comment> \<open>\<open>querySelectorAll\<close> on an element: its descendants, not the element itself.\<close>
  "elementQuerySelectorAll e sel = filter (matches sel) (concat (map elements (childNodes e)))"

definition head :: "document \<Rightarrow> node option" where
  \<comment> \<open>\<open>doc.head\<close>: the first \<open>head\<close> child of the document element when that is \<open>html\<close>.\<close>
  "head doc =
     (if isElement (documentElement doc) ''html''
      then find (\<lambda>c. isElement c ''head'') (childNodes (documentElement doc))
      else None)"

section \<open>Issues\<close>

record issue =
  category :: string
  severity :: string
  title :: string
  description :: string
  suggestion :: string

subsection \<open>The issues of the SEO group\<close>

definition missingTitleIssue :: issue where
  "missingTitleIssue =
     \<lparr>category = ''SEO'', severity = ''error'', title = ''Missing <title> tag'',
      description = ''The document does not have a <title> element.'',
      suggestion = ''Add a <title> element to the <head> section.''\<rparr>"

definition titleTooShortIssue :: "nat \<Rightarrow> issue" where
  "titleTooShortIssue len =
     \<lparr>category = ''SEO'', severity = ''warning'', title = ''Title too short'',
      description = ''Title is only '' @ toString len @ '' characters long.'',
      suggestion = ''Expand your title to be descriptive (aim for 30-60 characters).''\<rparr>"

definition titleTooLongIssue :: "nat \<Rightarrow> issue" where
  "titleTooLongIssue len =
     \<lparr>category = ''SEO'', severity = ''warning'', title = ''Title too long'',
      description = ''Title is '' @ toString len @ '' characters long.'',
      suggestion = ''Shorten your title to ensure it displays fully in search results (max ~60-70 chars).''\<rparr>"

definition missingDescriptionIssue :: issue where
  "missingDescriptionIssue =
     \<lparr>category = ''SEO'', severity = ''error'', title = ''Missing Meta Description'',
      description = ''No <meta name=\"description\"> tag found.'',
      suggestion = ''Add a meta description to summarize your page for search engines.''\<rparr>"

definition missingViewportIssue :: issue where
  "missingViewportIssue =
     \<lparr>category = ''SEO'', severity = ''error'', title = ''Missing Viewport Meta Tag'',
      description = ''No <meta name=\"viewport\"> tag found.'',
      suggestion = ''Add <meta name=\"viewport\" content=\"width=device-width, initial-scale=1.0\"> for mobile responsiveness.''\<rparr>"

subsection \<open>The issues of the Accessibility group\<close>

definition missingAltIssue :: "nat \<Rightarrow> issue" where
  "missingAltIssue missingAltCount =
     \<lparr>category = ''Accessibility'', severity = ''error'', title = ''Images missing Alt text'',
      description = ''Found '' @ toString missingAltCount @ '' <img> tag(s) without an alt attribute.'',
      suggestion = ''Add descriptive alt attributes to all images for screen readers.''\<rparr>"

definition genericLinkIssue :: "nat \<Rightarrow> issue" where
  "genericLinkIssue genericLinkCount =
     \<lparr>category = ''Accessibility'', severity = ''warning'', title = ''Non-descriptive Link Text'',
      description = ''Found '' @ toString genericLinkCount @ '' link(s) satisfying generic text like \"click here\".'',
      suggestion = ''Use descriptive text for links that explains their destination (e.g., \"Read more about pricing\").''\<rparr>"

definition noLandmarksIssue :: issue where
  "noLandmarksIssue =
     \<lparr>category = ''Accessibility'', severity = ''info'', title = ''No Semantic Landmarks Found'',
      description = ''Document does not use <main>, <nav>, <header>, or <footer>.'',
      suggestion = ''Use semantic HTML5 landmark elements to improve navigation for screen readers.''\<rparr>"

subsection \<open>The issues of the Structure group\<close>

definition missingH1Issue :: issue where
  "missingH1Issue =
     \<lparr>category = ''Structure'', severity = ''error'', title = ''Missing H1 Heading'',
      description = ''No <h1> tag found on the page.'',
      suggestion = ''Add exactly one <h1> tag to describe the main topic of the page.''\<rparr>"

definition multipleH1Issue :: "nat \<Rightarrow> issue" where
  "multipleH1Issue count =
     \<lparr>category = ''Structure'', severity = ''warning'', title = ''Multiple H1 Headings'',
      description = ''Found '' @ toString count @ '' <h1> tags.'',
      suggestion = ''Best practice is to have only one <h1> per page representing the main title.''\<rparr>"

definition skippedHeadingIssue :: issue where
  "skippedHeadingIssue =
     \<lparr>category = ''Structure'', severity = ''warning'', title = ''Skipped Heading Levels'',
      description = ''Heading levels should not be skipped (e.g., going from H2 to H4).'',
      suggestion = ''Ensure your heading hierarchy is sequential (e.g., H2 '' @ [CHR 0xE2, CHR 0x86, CHR 0x92] @ '' H3).''\<rparr>"

definition inlineStylesIssue :: "nat \<Rightarrow> issue" where
  "inlineStylesIssue count =
     \<lparr>category = ''Structure'', severity = ''info'', title = ''Heavy use of Inline Styles'',
      description = ''Found '' @ toString count @ '' elements with inline 'style' attributes.'',
      suggestion = ''Move styles to valid CSS classes or an external stylesheet for better maintainability.''\<rparr>"

subsection \<open>The issues of the Performance group\<close>

definition highImageCountIssue :: "nat \<Rightarrow> issue" where
  "highImageCountIssue count =
     \<lparr>category = ''Performance'', severity = ''warning'', title = ''High Image Count'',
      description = ''Page contains '' @ toString count @ '' images.'',
      suggestion = ''Lazy load images and consider if all are necessary for the initial view.''\<rparr>"

definition largeScriptsIssue :: "nat \<Rightarrow> issue" where
  "largeScriptsIssue largeScripts =
     \<lparr>category = ''Performance'', severity = ''info'', title = ''Large Inline Scripts'',
      description = ''Found '' @ toString largeScripts @ '' large inline script block(s).'',
      suggestion = ''Move large JavaScript logic to external .js files to take advantage of browser caching.''\<rparr>"

definition blockingScriptsIssue :: "nat \<Rightarrow> issue" where
  "blockingScriptsIssue blockingScripts =
     \<lparr>category = ''Performance'', severity = ''warning'', title = ''Render-blocking Scripts'',
      description = ''Found '' @ toString blockingScripts @ '' script(s) in <head> that are not async or defer.'',
      suggestion = ''Add \"defer\" or \"async\" attributes to scripts in the <head> to prevent blocking page render.''\<rparr>"

section \<open>The analyzer\<close>

text \<open>
  Each checker starts from the empty array and pushes its issues in the order of its
  rules; the array is threaded through the rules as \<open>issues\<close>.

  In \<open>checkSEO\<close> the title's \<open>innerHTML\<close> is assigned to the \<open>innerHTML\<close> of a
  fresh \<open>div\<close>: the platform serialises the children of the title and parses the markup
  again as the content of a \<open>div\<close> of the live document. That parse is the platform's
  and it is not the identity: it replaces carriage returns by line feeds, and with
  scripting enabled it reads the content of \<open>noscript\<close> as raw text. \<open>checkSEO\<close> takes it
  as the parameter \<open>roundTrip\<close>, which gives for a title element the children of
  \<open>tempDiv\<close> after the assignment. The \<open>|| ''\<close> after \<open>trim()\<close> replaces the empty
  string by the empty string. The \<open>canonical\<close> lookup is bound and never read.
\<close>

definition checkSEO :: "(node \<Rightarrow> node list) \<Rightarrow> document \<Rightarrow> issue list" where
  "checkSEO roundTrip doc =
     (let issues = [];
          title = querySelector doc [[Tag ''title'']];
          description = querySelector doc [[Tag ''meta'', AttrEq ''name'' ''description'']];
          viewport = querySelector doc [[Tag ''meta'', AttrEq ''name'' ''viewport'']];
          canonical = querySelector doc [[Tag ''link'', AttrEq ''rel'' ''canonical'']];
          issues =
            (case title of
               None \<Rightarrow> issues @ [missingTitleIssue]
             | Some t \<Rightarrow>
                 (let tempDiv = Element ''div'' [] (roundTrip t);
                      titleText = trim (textContent tempDiv)
                  in if length titleText < 10 then issues @ [titleTooShortIssue (length titleText)]
                     else if length titleText > 70 then issues @ [titleTooLongIssue (length titleText)]
                     else issues));
          issues = (if description = None then issues @ [missingDescriptionIssue] else issues);
          issues = (if viewport = None then issues @ [missingViewportIssue] else issues)
      in issues)"

definition genericTerms :: "string list" where
  "genericTerms = [''click here'', ''read more'', ''more'', ''link'', ''here'']"

definition landmarks :: "string list" where
  "landmarks = [''main'', ''nav'', ''header'', ''footer'', ''aside'']"

definition checkAccessibility :: "document \<Rightarrow> issue list" where
  "checkAccessibility doc =
     (let issues = [];
          images = querySelectorAll doc [[Tag ''img'']];
          missingAltCount =
            fold (\<lambda>img missingAltCount.
                    if \<not> hasAttribute img ''alt'' then missingAltCount + 1 else missingAltCount)
              images (0 :: nat);
          issues = (if missingAltCount > 0 then issues @ [missingAltIssue missingAltCount] else issues);
          links = querySelectorAll doc [[Tag ''a'']];
          genericLinkCount =
            fold (\<lambda>link genericLinkCount.
                    (let text = toLowerCase (trim (textContent link))
                     in if text \<in> set genericTerms then genericLinkCount + 1 else genericLinkCount))
              links (0 :: nat);
          issues = (if genericLinkCount > 0 then issues @ [genericLinkIssue genericLinkCount] else issues);
          foundLandmarks = filter (\<lambda>tag. querySelector doc [[Tag tag]] \<noteq> None) landmarks;
          issues = (if length foundLandmarks = 0 then issues @ [noLandmarksIssue] else issues)
      in issues)"

text \<open>
  The loop over the headings: it returns \<open>skippedLevels\<close>, and leaves at the first
  heading whose level exceeds the previous level by more than one.
\<close>

fun headingLoop :: "node list \<Rightarrow> int option \<Rightarrow> bool" where
  "headingLoop [] previousLevel = False"
| "headingLoop (heading # rest) previousLevel =
     (let currentLevel = parseInt (drop 1 (tagName heading))
      in if numGreater currentLevel (numPlus previousLevel 1) then True
         else headingLoop rest currentLevel)"

definition headingSelector :: selector where
  "headingSelector = [[Tag ''h1''], [Tag ''h2''], [Tag ''h3''], [Tag ''h4''], [Tag ''h5''], [Tag ''h6'']]"

definition checkStructure :: "document \<Rightarrow> issue list" where
  "checkStructure doc =
     (let issues = [];
          h1s = querySelectorAll doc [[Tag ''h1'']];
          issues =
            (if length h1s = 0 then issues @ [missingH1Issue]
             else if length h1s > 1 then issues @ [multipleH1Issue (length h1s)]
             else issues);
          allHeadings = querySelectorAll doc headingSelector;
          skippedLevels = headingLoop allHeadings (Some 0);
          issues = (if skippedLevels then issues @ [skippedHeadingIssue] else issues);
          elementsWithStyle = querySelectorAll doc [[HasAttr ''style'']];
          issues =
            (if length elementsWithStyle > 10 then issues @ [inlineStylesIssue (length elementsWithStyle)]
             else issues)
      in issues)"

definition checkPerformance :: "document \<Rightarrow> issue list" where
  "checkPerformance doc =
     (let issues = [];
          images = querySelectorAll doc [[Tag ''img'']];
          issues = (if length images > 30 then issues @ [highImageCountIssue (length images)] else issues);
          scripts = querySelectorAll doc [[Tag ''script'', NotSel (HasAttr ''src'')]];
          largeScripts =
            fold (\<lambda>script largeScripts.
                    if length (textContent script) > 2000 then largeScripts + 1 else largeScripts)
              scripts (0 :: nat);
          issues = (if largeScripts > 0 then issues @ [largeScriptsIssue largeScripts] else issues);
          headScripts =
            (case head doc of
               Some h \<Rightarrow> elementQuerySelectorAll h [[Tag ''script'', HasAttr ''src'']]
             | None \<Rightarrow> []);
          blockingScripts =
            fold (\<lambda>script blockingScripts.
                    if \<not> hasAttribute script ''async'' \<and> \<not> hasAttribute script ''defer''
                    then blockingScripts + 1 else blockingScripts)
              headScripts (0 :: nat);
          issues = (if blockingScripts > 0 then issues @ [blockingScriptsIssue blockingScripts] else issues)
      in issues)"

text \<open>
  \<open>runAudit\<close> compiles the report from the four checkers' arrays, spread in this order;
  \<open>roundTrip\<close> is the platform's parse that \<open>checkSEO\<close> uses.
\<close>

definition allIssues :: "(node \<Rightarrow> node list) \<Rightarrow> document \<Rightarrow> issue list" where
  "allIssues roundTrip doc =
     (let seoIssues = checkSEO roundTrip doc;
          a11yIssues = checkAccessibility doc;
          structureIssues = checkStructure doc;
          perfIssues = checkPerformance doc
      in seoIssues @ a11yIssues @ structureIssues @ perfIssues)"

section \<open>Notions used in the statements\<close>


text \<open>The titles of all rules, in the order of the groups and of the rules in each group.\<close>

definition ruleTitles :: "string list" where
  "ruleTitles =
     [''Missing <title> tag'', ''Title too short'', ''Title too long'',
      ''Missing Meta Description'', ''Missing Viewport Meta Tag'',
      ''Images missing Alt text'', ''Non-descriptive Link Text'', ''No Semantic Landmarks Found'',
      ''Missing H1 Heading'', ''Multiple H1 Headings'', ''Skipped Heading Levels'',
      ''Heavy use of Inline Styles'',
      ''High Image Count'', ''Large Inline Scripts'', ''Render-blocking Scripts'']"

subsection \<open>Documents that differ in canonical links only\<close>

definition canonicalSelector :: selector where
  "canonicalSelector = [[Tag ''link'', AttrEq ''rel'' ''canonical'']]"

text \<open>
  \<open>stripCanonical\<close> removes every canonical link below a node. Two documents differ only
  in the presence or content of canonical links when stripping makes them equal.
\<close>

fun stripCanonical :: "node \<Rightarrow> node" where
  "stripCanonical (Element t ats cs) =
     Element t ats (map stripCanonical (filter (\<lambda>c. \<not> matches canonicalSelector c) cs))"
| "stripCanonical (Text s) = Text s"
| "stripCanonical (Comment s) = Comment s"

definition stripCanonicalDoc :: "document \<Rightarrow> document" where
  "stripCanonicalDoc doc = Document (stripCanonical (documentElement doc))"

text \<open>
  In HTML content \<open>link\<close> is a void element and has no children; inside \<open>svg\<close> or
  \<open>math\<close> the parser gives it the elements that follow as children. \<open>canonicalsVoid\<close>
  says that the canonical links of a document have no children; \<open>canonicalsUnstyled\<close>
  says that none of them carries a \<open>style\<close> attribute.
\<close>

definition canonicalsVoid :: "document \<Rightarrow> bool" where
  "canonicalsVoid doc = list_all (\<lambda>e. childNodes e = []) (querySelectorAll doc canonicalSelector)"

definition canonicalsUnstyled :: "document \<Rightarrow> bool" where
  "canonicalsUnstyled doc =
     list_all (\<lambda>e. \<not> hasAttribute e ''style'') (querySelectorAll doc canonicalSelector)"

definition voidIn :: "node \<Rightarrow> bool" where
  "voidIn n = list_all (\<lambda>e. childNodes e = []) (filter (matches canonicalSelector) (elements n))"

text \<open>
  The title rule reads the markup of the title element, so a canonical link inside that
  element is part of what it measures. \<open>canonicalsOutsideTitle\<close> says that the title
  element the rule reads holds no canonical link.
\<close>

definition canonicalsOutsideTitle :: "document \<Rightarrow> bool" where
  "canonicalsOutsideTitle doc =
     (case querySelector doc [[Tag ''title'']] of
        None \<Rightarrow> True
      | Some t \<Rightarrow> elementQuerySelectorAll t canonicalSelector = [])"

text \<open>What the checkers read of an element they have selected.\<close>

definition observable :: "node \<Rightarrow> string \<times> (string \<times> string) list \<times> string" where
  "observable n = (tagName n, attributes n, textContent n)"

subsection \<open>The round trip at the example documents\<close>

text \<open>
  The examples instantiate \<open>roundTrip\<close> with what the platform does at their titles.
  Text free of markup characters comes back with each carriage return, and each carriage
  return followed by a line feed, replaced by one line feed. A \<open>noscript\<close> element that
  holds \<open>link\<close> elements comes back holding one text node, the start tags of the links:
  the serialisation writes \<open><noscript><link ...></noscript>\<close>, and a \<open>div\<close> of the live
  document parses with scripting enabled, where the content of \<open>noscript\<close> is raw text.
  An empty \<open>noscript\<close> comes back empty. The titles of the examples hold nothing else,
  and the attribute values of their links have no character that the serialisation
  escapes.
\<close>

fun normalizeNewlines :: "string \<Rightarrow> string" where
  "normalizeNewlines (c # d # s) =
     (if c = CHR 0x0D \<and> d = CHR 0x0A then CHR 0x0A # normalizeNewlines s
      else if c = CHR 0x0D then CHR 0x0A # normalizeNewlines (d # s)
      else c # normalizeNewlines (d # s))"
| "normalizeNewlines [c] = (if c = CHR 0x0D then [CHR 0x0A] else [c])"
| "normalizeNewlines [] = []"

fun startTag :: "node \<Rightarrow> string" where
  "startTag (Element t ats cs) =
     ''<'' @ t @ concat (map (\<lambda>(name, v). '' '' @ name @ ''=\"'' @ v @ ''\"'') ats) @ ''>''"
| "startTag (Text s) = []"
| "startTag (Comment s) = []"

fun reparsed :: "node \<Rightarrow> node" where
  "reparsed (Text s) = Text (normalizeNewlines s)"
| "reparsed (Element t ats cs) =
     (if t = ''noscript'' \<and> cs \<noteq> [] \<and> list_all (\<lambda>c. isElement c ''link'') cs
      then Element t ats [Text (concat (map startTag cs))]
      else Element t ats cs)"
| "reparsed (Comment s) = Comment s"

definition exampleRoundTrip :: "node \<Rightarrow> node list" where
  "exampleRoundTrip t = map reparsed (childNodes t)"

subsection \<open>Example documents\<close>

definition htmlDocument :: "node list \<Rightarrow> node list \<Rightarrow> document" where
  "htmlDocument headNodes bodyNodes =
     Document (Element ''html'' [] [Element ''head'' [] headNodes, Element ''body'' [] bodyNodes])"

definition emptyDocument :: document where
  \<comment> \<open>The tree of \<open><html><head></head><body></body></html>\<close>.\<close>
  "emptyDocument = htmlDocument [] []"

definition heading :: "string \<Rightarrow> node" where
  "heading t = Element t [] [Text ''Section'']"


definition anchor :: "string \<Rightarrow> node" where
  "anchor s = Element ''a'' [(''href'', ''/page'')] [Text s]"

definition styled :: node where
  "styled = Element ''p'' [(''style'', ''color: red'')] [Text ''x'']"

definition script :: "(string \<times> string) list \<Rightarrow> node" where
  "script ats = Element ''script'' ats []"

definition canonicalLink :: "(string \<times> string) list \<Rightarrow> node" where
  "canonicalLink ats = Element ''link'' ([(''rel'', ''canonical''), (''href'', ''https://example.org/'')] @ ats) []"

definition pageWith :: "node list \<Rightarrow> document" where
  "pageWith links =
     htmlDocument ([Element ''title'' [] [Text ''A page about canonical links'']] @ links)
       (replicate 10 styled)"

text \<open>A document whose body is an \<open>svg\<close> element: with a title in it, and with links in it.\<close>

definition svgTitled :: "node list \<Rightarrow> document" where
  "svgTitled cs = htmlDocument [] [Element ''svg'' [] [Element ''title'' [] cs]]"

definition svgLinked :: "node list \<Rightarrow> document" where
  "svgLinked links = htmlDocument [] [Element ''svg'' [] links]"

section \<open>Auxiliary facts\<close>

declare toString.simps [simp del]

subsection \<open>Issues, selectors and queries\<close>

lemma fold_count:
  "fold (\<lambda>x c. if P x then c + 1 else c) xs (n::nat) = n + length (filter P xs)"
  by (induction xs arbitrary: n) auto

lemma issue_titles [simp]:
  "title missingTitleIssue = ''Missing <title> tag''"
  "title (titleTooShortIssue n) = ''Title too short''"
  "title (titleTooLongIssue n) = ''Title too long''"
  "title missingDescriptionIssue = ''Missing Meta Description''"
  "title missingViewportIssue = ''Missing Viewport Meta Tag''"
  "title (missingAltIssue n) = ''Images missing Alt text''"
  "title (genericLinkIssue n) = ''Non-descriptive Link Text''"
  "title noLandmarksIssue = ''No Semantic Landmarks Found''"
  "title missingH1Issue = ''Missing H1 Heading''"
  "title (multipleH1Issue n) = ''Multiple H1 Headings''"
  "title skippedHeadingIssue = ''Skipped Heading Levels''"
  "title (inlineStylesIssue n) = ''Heavy use of Inline Styles''"
  "title (highImageCountIssue n) = ''High Image Count''"
  "title (largeScriptsIssue n) = ''Large Inline Scripts''"
  "title (blockingScriptsIssue n) = ''Render-blocking Scripts''"
  by (simp_all add: missingTitleIssue_def titleTooShortIssue_def titleTooLongIssue_def
      missingDescriptionIssue_def missingViewportIssue_def missingAltIssue_def
      genericLinkIssue_def noLandmarksIssue_def missingH1Issue_def multipleH1Issue_def
      skippedHeadingIssue_def inlineStylesIssue_def highImageCountIssue_def
      largeScriptsIssue_def blockingScriptsIssue_def)

lemma issue_categories [simp]:
  "category missingTitleIssue = ''SEO''"
  "category (titleTooShortIssue n) = ''SEO''"
  "category (titleTooLongIssue n) = ''SEO''"
  "category missingDescriptionIssue = ''SEO''"
  "category missingViewportIssue = ''SEO''"
  "category (missingAltIssue n) = ''Accessibility''"
  "category (genericLinkIssue n) = ''Accessibility''"
  "category noLandmarksIssue = ''Accessibility''"
  "category missingH1Issue = ''Structure''"
  "category (multipleH1Issue n) = ''Structure''"
  "category skippedHeadingIssue = ''Structure''"
  "category (inlineStylesIssue n) = ''Structure''"
  "category (highImageCountIssue n) = ''Performance''"
  "category (largeScriptsIssue n) = ''Performance''"
  "category (blockingScriptsIssue n) = ''Performance''"
  by (simp_all add: missingTitleIssue_def titleTooShortIssue_def titleTooLongIssue_def
      missingDescriptionIssue_def missingViewportIssue_def missingAltIssue_def
      genericLinkIssue_def noLandmarksIssue_def missingH1Issue_def multipleH1Issue_def
      skippedHeadingIssue_def inlineStylesIssue_def highImageCountIssue_def
      largeScriptsIssue_def blockingScriptsIssue_def)

lemma matches_tag: "matches [[Tag t]] = (\<lambda>n. isElement n t)"
  by (rule ext) (simp add: matches_def)

lemma matches_attr: "matches [[HasAttr a]] = (\<lambda>n. hasAttribute n a)"
  by (rule ext) (simp add: matches_def)

lemma matches_script_src:
  "matches [[Tag ''script'', HasAttr ''src'']] = (\<lambda>n. isElement n ''script'' \<and> hasAttribute n ''src'')"
  by (rule ext) (simp add: matches_def)



lemma querySelector_None: "(querySelector doc sel = None) = (querySelectorAll doc sel = [])"
  by (simp add: querySelector_def split: list.splits)

subsection \<open>The checkers as the concatenation of their rules\<close>

lemma checkSEO_parts:
  "checkSEO roundTrip doc =
     (case querySelector doc [[Tag ''title'']] of
        None \<Rightarrow> [missingTitleIssue]
      | Some t \<Rightarrow>
          if length (trim (textContent (Element ''div'' [] (roundTrip t)))) < 10
          then [titleTooShortIssue (length (trim (textContent (Element ''div'' [] (roundTrip t)))))]
          else if length (trim (textContent (Element ''div'' [] (roundTrip t)))) > 70
          then [titleTooLongIssue (length (trim (textContent (Element ''div'' [] (roundTrip t)))))]
          else []) @
     (if querySelector doc [[Tag ''meta'', AttrEq ''name'' ''description'']] = None then [missingDescriptionIssue] else []) @
     (if querySelector doc [[Tag ''meta'', AttrEq ''name'' ''viewport'']] = None then [missingViewportIssue] else [])"
  by (cases "querySelector doc [[Tag ''title'']]") (simp_all add: checkSEO_def Let_def)

lemma checkAccessibility_parts:
  "checkAccessibility doc =
     (if 0 < length (filter (\<lambda>img. \<not> hasAttribute img ''alt'') (querySelectorAll doc [[Tag ''img'']]))
      then [missingAltIssue (length (filter (\<lambda>img. \<not> hasAttribute img ''alt'') (querySelectorAll doc [[Tag ''img'']])))]
      else []) @
     (if 0 < length (filter (\<lambda>link. toLowerCase (trim (textContent link)) \<in> set genericTerms) (querySelectorAll doc [[Tag ''a'']]))
      then [genericLinkIssue (length (filter (\<lambda>link. toLowerCase (trim (textContent link)) \<in> set genericTerms) (querySelectorAll doc [[Tag ''a'']])))]
      else []) @
     (if filter (\<lambda>tag. querySelector doc [[Tag tag]] \<noteq> None) landmarks = [] then [noLandmarksIssue] else [])"
  by (simp add: checkAccessibility_def Let_def fold_count)

lemma checkStructure_parts:
  "checkStructure doc =
     (if length (querySelectorAll doc [[Tag ''h1'']]) = 0 then [missingH1Issue]
      else if length (querySelectorAll doc [[Tag ''h1'']]) > 1
      then [multipleH1Issue (length (querySelectorAll doc [[Tag ''h1'']]))] else []) @
     (if headingLoop (querySelectorAll doc headingSelector) (Some 0) then [skippedHeadingIssue] else []) @
     (if length (querySelectorAll doc [[HasAttr ''style'']]) > 10
      then [inlineStylesIssue (length (querySelectorAll doc [[HasAttr ''style'']]))] else [])"
  by (simp add: checkStructure_def Let_def)

lemma checkPerformance_parts:
  "checkPerformance doc =
     (if length (querySelectorAll doc [[Tag ''img'']]) > 30
      then [highImageCountIssue (length (querySelectorAll doc [[Tag ''img'']]))] else []) @
     (if 0 < length (filter (\<lambda>script. length (textContent script) > 2000)
                 (querySelectorAll doc [[Tag ''script'', NotSel (HasAttr ''src'')]]))
      then [largeScriptsIssue (length (filter (\<lambda>script. length (textContent script) > 2000)
                 (querySelectorAll doc [[Tag ''script'', NotSel (HasAttr ''src'')]])))] else []) @
     (if 0 < length (filter (\<lambda>script. \<not> hasAttribute script ''async'' \<and> \<not> hasAttribute script ''defer'')
                 (case head doc of Some h \<Rightarrow> elementQuerySelectorAll h [[Tag ''script'', HasAttr ''src'']] | None \<Rightarrow> []))
      then [blockingScriptsIssue (length (filter (\<lambda>script. \<not> hasAttribute script ''async'' \<and> \<not> hasAttribute script ''defer'')
                 (case head doc of Some h \<Rightarrow> elementQuerySelectorAll h [[Tag ''script'', HasAttr ''src'']] | None \<Rightarrow> [])))] else [])"
  by (simp add: checkPerformance_def Let_def fold_count)

subsection \<open>The heading loop\<close>

lemma nat_trichotomy_list: "\<not> Suc 0 < length xs \<Longrightarrow> length xs \<noteq> Suc 0 \<Longrightarrow> xs = []"
  by (cases xs) auto






subsection \<open>Categories and rule order\<close>

lemma seo_category: "i \<in> set (checkSEO roundTrip doc) \<Longrightarrow> category i = ''SEO''"
  by (auto simp: checkSEO_parts split: option.splits if_splits)

lemma a11y_category: "i \<in> set (checkAccessibility doc) \<Longrightarrow> category i = ''Accessibility''"
  by (auto simp: checkAccessibility_parts split: if_splits)

lemma structure_category: "i \<in> set (checkStructure doc) \<Longrightarrow> category i = ''Structure''"
  by (auto simp: checkStructure_parts split: if_splits)

lemma performance_category: "i \<in> set (checkPerformance doc) \<Longrightarrow> category i = ''Performance''"
  by (auto simp: checkPerformance_parts split: if_splits)

lemma map_const: "(\<And>x. x \<in> set xs \<Longrightarrow> f x = c) \<Longrightarrow> map f xs = replicate (length xs) c"
  by (induction xs) auto

lemma seo_titles:
  "subseq (map title (checkSEO roundTrip doc))
     [''Missing <title> tag'', ''Title too short'', ''Title too long'',
      ''Missing Meta Description'', ''Missing Viewport Meta Tag'']"
  by (cases "querySelector doc [[Tag ''title'']]") (simp_all add: checkSEO_parts)

lemma a11y_titles:
  "subseq (map title (checkAccessibility doc))
     [''Images missing Alt text'', ''Non-descriptive Link Text'', ''No Semantic Landmarks Found'']"
  by (simp add: checkAccessibility_parts)

lemma structure_titles:
  "subseq (map title (checkStructure doc))
     [''Missing H1 Heading'', ''Multiple H1 Headings'', ''Skipped Heading Levels'', ''Heavy use of Inline Styles'']"
  by (simp add: checkStructure_parts)

lemma performance_titles:
  "subseq (map title (checkPerformance doc))
     [''High Image Count'', ''Large Inline Scripts'', ''Render-blocking Scripts'']"
  by (simp add: checkPerformance_parts)

subsection \<open>Stripping canonical links\<close>

lemma voidIn_iff:
  "voidIn n = (\<forall>e\<in>set (elements n). matches canonicalSelector e \<longrightarrow> childNodes e = [])"
  by (auto simp: voidIn_def list_all_iff)

lemma matches_shallow: "matches sel (Element t ats cs) = matches sel (Element t ats cs')"
proof -
  have "matchesSimple s (Element t ats cs) = matchesSimple s (Element t ats cs')" for s
    by (induction s) (simp_all add: hasAttribute_def getAttribute_def)
  then show ?thesis by (simp add: matches_def)
qed

lemma matches_strip [simp]: "matches sel (stripCanonical n) = matches sel n"
  by (cases n) (simp_all add: matches_shallow[of sel _ _ "map stripCanonical _"])

lemma voidIn_child: "voidIn (Element t ats cs) \<Longrightarrow> c \<in> set cs \<Longrightarrow> voidIn c"
  by (auto simp: voidIn_iff)

lemma canonical_void_elements:
  assumes "voidIn c" "matches canonicalSelector c"
  shows "elements c = [c]" "textContent c = []" "stripCanonical c = c"
proof -
  from assms(2) obtain t ats cs where c: "c = Element t ats cs"
    by (cases c) (auto simp: matches_def canonicalSelector_def)
  with assms have "cs = []" by (auto simp: voidIn_iff)
  with c show "elements c = [c]" "textContent c = []" "stripCanonical c = c" by simp_all
qed

lemma concat_map_filter_empty:
  assumes "\<And>c. c \<in> set cs \<Longrightarrow> \<not> P c \<Longrightarrow> f c = []"
  shows "concat (map f (filter P cs)) = concat (map f cs)"
  using assms by (induction cs) auto

lemma textContent_strip: "voidIn n \<Longrightarrow> textContent (stripCanonical n) = textContent n"
proof (induction n)
  case (Element t ats cs)
  have "concat (map textContent (map stripCanonical (filter (\<lambda>c. \<not> matches canonicalSelector c) cs)))
        = concat (map textContent (filter (\<lambda>c. \<not> matches canonicalSelector c) cs))"
    using Element voidIn_child[OF Element.prems]
    by (auto simp: comp_def intro!: arg_cong[where f=concat] map_cong)
  also have "\<dots> = concat (map textContent cs)"
    using canonical_void_elements(2) voidIn_child[OF Element.prems]
    by (intro concat_map_filter_empty) auto
  finally show ?case by simp
qed simp_all

lemma observable_strip: "voidIn n \<Longrightarrow> observable (stripCanonical n) = observable n"
  using textContent_strip[of n] by (cases n) (simp_all add: observable_def)

lemma forest_strip:
  assumes ih: "\<And>c. c \<in> set cs \<Longrightarrow>
                 map observable (filter (matches sel) (elements (stripCanonical c))) =
                 map observable (filter (matches sel) (elements c))"
    and void: "\<And>c. c \<in> set cs \<Longrightarrow> voidIn c"
    and miss: "\<And>c. c \<in> set cs \<Longrightarrow> matches canonicalSelector c \<Longrightarrow> \<not> matches sel c"
  shows "map observable (filter (matches sel)
           (concat (map elements (map stripCanonical (filter (\<lambda>c. \<not> matches canonicalSelector c) cs))))) =
         map observable (filter (matches sel) (concat (map elements cs)))"
  using assms
proof (induction cs)
  case Nil
  then show ?case by simp
next
  case (Cons c cs)
  then have rest: "map observable (filter (matches sel)
           (concat (map elements (map stripCanonical (filter (\<lambda>c. \<not> matches canonicalSelector c) cs))))) =
         map observable (filter (matches sel) (concat (map elements cs)))"
    by simp
  show ?case
  proof (cases "matches canonicalSelector c")
    case True
    with Cons.prems(2)[of c] have "elements c = [c]" by (simp add: canonical_void_elements)
    with True Cons.prems(3)[of c] rest show ?thesis by simp
  next
    case False
    with Cons.prems(1)[of c] rest show ?thesis by simp
  qed
qed

lemma elements_strip:
  assumes "voidIn n"
    and "\<And>e. e \<in> set (elements n) \<Longrightarrow> matches canonicalSelector e \<Longrightarrow> \<not> matches sel e"
  shows "map observable (filter (matches sel) (elements (stripCanonical n))) =
         map observable (filter (matches sel) (elements n))"
  using assms
proof (induction n)
  case (Element t ats cs)
  have kids: "map observable (filter (matches sel)
           (concat (map elements (map stripCanonical (filter (\<lambda>c. \<not> matches canonicalSelector c) cs))))) =
         map observable (filter (matches sel) (concat (map elements cs)))"
  proof (rule forest_strip)
    fix c assume c: "c \<in> set cs"
    then show "voidIn c" using Element.prems(1) by (rule voidIn_child[rotated])
    show "map observable (filter (matches sel) (elements (stripCanonical c))) =
          map observable (filter (matches sel) (elements c))"
      using c Element.prems(2) voidIn_child[OF Element.prems(1) c]
      by (intro Element.IH) auto
    assume "matches canonicalSelector c"
    moreover from this have "c \<in> set (elements c)" by (cases c) (auto simp: matches_def canonicalSelector_def)
    ultimately show "\<not> matches sel c" using c Element.prems(2)[of c] by auto
  qed
  have self: "observable (stripCanonical (Element t ats cs)) = observable (Element t ats cs)"
    using Element.prems(1) by (rule observable_strip)
  have m: "matches sel (stripCanonical (Element t ats cs)) = matches sel (Element t ats cs)"
    by (rule matches_strip)
  show ?case
    using kids self m by (simp del: matches_strip)
qed simp_all

lemma canonicalsVoid_voidIn: "canonicalsVoid doc \<Longrightarrow> voidIn (documentElement doc)"
  by (auto simp: canonicalsVoid_def voidIn_iff querySelectorAll_def list_all_iff)

lemma documentElement_strip [simp]:
  "documentElement (stripCanonicalDoc doc) = stripCanonical (documentElement doc)"
  by (simp add: stripCanonicalDoc_def)

lemma query_strip:
  assumes "canonicalsVoid doc"
    and "\<And>e. e \<in> set (elements (documentElement doc)) \<Longrightarrow> matches canonicalSelector e \<Longrightarrow> \<not> matches sel e"
  shows "map observable (querySelectorAll (stripCanonicalDoc doc) sel) =
         map observable (querySelectorAll doc sel)"
  unfolding querySelectorAll_def documentElement_strip
  using canonicalsVoid_voidIn[OF assms(1)] assms(2) by (rule elements_strip)

lemma canonical_is_link: "matches canonicalSelector e \<Longrightarrow> isElement e ''link''"
  by (simp add: matches_def canonicalSelector_def)

lemma isElement_unique: "isElement e t \<Longrightarrow> isElement e u \<Longrightarrow> t = u"
  by (cases e) auto

lemma tag_misses_canonical:
  assumes "t \<noteq> ''link''" "matches canonicalSelector e"
  shows "\<not> matches [Tag t # rest] e"
proof
  assume "matches [Tag t # rest] e"
  then have "isElement e t" by (simp add: matches_def)
  with canonical_is_link[OF assms(2)] assms(1) show False
    by (auto dest: isElement_unique)
qed

lemma headings_miss_canonical:
  assumes "matches canonicalSelector e"
  shows "\<not> matches headingSelector e"
proof
  assume "matches headingSelector e"
  then have "isElement e ''h1'' \<or> isElement e ''h2'' \<or> isElement e ''h3'' \<or> isElement e ''h4'' \<or>
             isElement e ''h5'' \<or> isElement e ''h6''"
    by (simp add: matches_def headingSelector_def)
  with canonical_is_link[OF assms] show False
    by (auto dest: isElement_unique)
qed

lemma observable_parts:
  assumes "map observable xs = map observable ys"
  shows "length xs = length ys"
    and "map tagName xs = map tagName ys"
    and "map attributes xs = map attributes ys"
    and "map textContent xs = map textContent ys"
proof -
  show "length xs = length ys" using assms by (rule map_eq_imp_length_eq)
  have "map (fst \<circ> observable) xs = map (fst \<circ> observable) ys"
    using assms by (metis map_map)
  then show "map tagName xs = map tagName ys" by (simp add: observable_def comp_def)
  have "map (fst \<circ> snd \<circ> observable) xs = map (fst \<circ> snd \<circ> observable) ys"
    using assms by (metis map_map)
  then show "map attributes xs = map attributes ys" by (simp add: observable_def comp_def)
  have "map (snd \<circ> snd \<circ> observable) xs = map (snd \<circ> snd \<circ> observable) ys"
    using assms by (metis map_map)
  then show "map textContent xs = map textContent ys" by (simp add: observable_def comp_def)
qed

lemma count_through:
  assumes "map f xs = map f ys"
  shows "length (filter (\<lambda>n. P (f n)) xs) = length (filter (\<lambda>n. P (f n)) ys)"
proof -
  have "length (filter (\<lambda>n. P (f n)) zs) = length (filter P (map f zs))" for zs
    by (induction zs) simp_all
  then show ?thesis by (simp only: assms)
qed

lemma headingLoop_tagNames:
  "map tagName xs = map tagName ys \<Longrightarrow> headingLoop xs p = headingLoop ys p"
proof (induction xs arbitrary: ys p)
  case Nil
  then show ?case by simp
next
  case (Cons x xs)
  then obtain y ys' where ys: "ys = y # ys'" by (cases ys) auto
  with Cons.prems have "tagName x = tagName y" "map tagName xs = map tagName ys'" by simp_all
  with Cons.IH[of ys'] ys show ?case by (simp add: Let_def)
qed

lemma query_strip_None:
  assumes "map observable (querySelectorAll d' sel) = map observable (querySelectorAll d sel)"
  shows "(querySelector d' sel = None) = (querySelector d sel = None)"
  using observable_parts(1)[OF assms] by (auto simp: querySelector_None)

lemma query_strip_text:
  assumes "map observable (querySelectorAll d' sel) = map observable (querySelectorAll d sel)"
  shows "map_option textContent (querySelector d' sel) = map_option textContent (querySelector d sel)"
  using observable_parts(4)[OF assms]
  by (cases "querySelectorAll d' sel"; cases "querySelectorAll d sel") (simp_all add: querySelector_def)

lemma tag_query_strip:
  assumes "canonicalsVoid doc" "t \<noteq> ''link''"
  shows "map observable (querySelectorAll (stripCanonicalDoc doc) [Tag t # rest]) =
         map observable (querySelectorAll doc [Tag t # rest])"
  using assms(1) tag_misses_canonical[OF assms(2)] by (intro query_strip) auto

lemma checkAccessibility_strip:
  assumes "canonicalsVoid doc"
  shows "checkAccessibility (stripCanonicalDoc doc) = checkAccessibility doc"
proof -
  note q = tag_query_strip[OF assms]
  have img: "map attributes (querySelectorAll (stripCanonicalDoc doc) [[Tag ''img'']]) =
             map attributes (querySelectorAll doc [[Tag ''img'']])"
    by (rule observable_parts(3), rule q) simp
  have a: "map textContent (querySelectorAll (stripCanonicalDoc doc) [[Tag ''a'']]) =
           map textContent (querySelectorAll doc [[Tag ''a'']])"
    by (rule observable_parts(4), rule q) simp
  have alt: "length (filter (\<lambda>img. \<not> hasAttribute img ''alt'') (querySelectorAll (stripCanonicalDoc doc) [[Tag ''img'']])) =
             length (filter (\<lambda>img. \<not> hasAttribute img ''alt'') (querySelectorAll doc [[Tag ''img'']]))"
    unfolding hasAttribute_def getAttribute_def
    using img by (rule count_through[where P = "\<lambda>ats. \<not> map_of ats ''alt'' \<noteq> None"])
  have gen: "length (filter (\<lambda>link. toLowerCase (trim (textContent link)) \<in> set genericTerms) (querySelectorAll (stripCanonicalDoc doc) [[Tag ''a'']])) =
             length (filter (\<lambda>link. toLowerCase (trim (textContent link)) \<in> set genericTerms) (querySelectorAll doc [[Tag ''a'']]))"
    using a by (rule count_through[where P = "\<lambda>s. toLowerCase (trim s) \<in> set genericTerms"])
  have lm: "filter (\<lambda>tag. querySelector (stripCanonicalDoc doc) [[Tag tag]] \<noteq> None) landmarks =
            filter (\<lambda>tag. querySelector doc [[Tag tag]] \<noteq> None) landmarks"
  proof (rule filter_cong[OF refl])
    fix tag assume "tag \<in> set landmarks"
    then have "tag \<noteq> ''link''" by (auto simp: landmarks_def)
    from query_strip_None[OF q[OF this]]
    show "(querySelector (stripCanonicalDoc doc) [[Tag tag]] \<noteq> None) = (querySelector doc [[Tag tag]] \<noteq> None)"
      by simp
  qed
  show ?thesis
    unfolding checkAccessibility_parts alt gen lm ..
qed

lemma find_strip:
  assumes "name \<noteq> ''link''"
  shows "find (\<lambda>c. isElement c name) (map stripCanonical (filter (\<lambda>c. \<not> matches canonicalSelector c) cs)) =
         map_option stripCanonical (find (\<lambda>c. isElement c name) cs)"
proof (induction cs)
  case Nil
  then show ?case by simp
next
  case (Cons c cs)
  have s: "isElement (stripCanonical c) name = isElement c name" by (cases c) simp_all
  have "matches canonicalSelector c \<Longrightarrow> \<not> isElement c name"
    using assms canonical_is_link isElement_unique by blast
  with Cons s show ?case by auto
qed

lemma head_strip: "head (stripCanonicalDoc doc) = map_option stripCanonical (head doc)"
proof (cases "documentElement doc")
  case (Element t ats cs)
  then show ?thesis by (simp add: head_def find_strip)
qed (simp_all add: head_def)

lemma elements_child: "c \<in> set (childNodes n) \<Longrightarrow> set (elements c) \<subseteq> set (elements n)"
  by (cases n) auto

lemma head_child:
  assumes "head doc = Some h"
  shows "h \<in> set (childNodes (documentElement doc))"
proof -
  from assms have "find (\<lambda>c. isElement c ''head'') (childNodes (documentElement doc)) = Some h"
    by (simp add: head_def split: if_splits)
  then show ?thesis by (auto simp: find_Some_iff)
qed

lemma element_query_strip:
  assumes "voidIn h"
    and "\<And>e. matches canonicalSelector e \<Longrightarrow> \<not> matches sel e"
  shows "map observable (elementQuerySelectorAll (stripCanonical h) sel) =
         map observable (elementQuerySelectorAll h sel)"
proof (cases h)
  case (Element t ats cs)
  have "map observable (filter (matches sel)
           (concat (map elements (map stripCanonical (filter (\<lambda>c. \<not> matches canonicalSelector c) cs))))) =
         map observable (filter (matches sel) (concat (map elements cs)))"
  proof (rule forest_strip)
    fix c assume c: "c \<in> set cs"
    with assms(1) Element show v: "voidIn c" by (auto dest: voidIn_child)
    show "map observable (filter (matches sel) (elements (stripCanonical c))) =
          map observable (filter (matches sel) (elements c))"
      using v assms(2) by (intro elements_strip) auto
    assume "matches canonicalSelector c"
    then show "\<not> matches sel c" by (rule assms(2))
  qed
  with Element show ?thesis by (simp add: elementQuerySelectorAll_def)
qed (simp_all add: elementQuerySelectorAll_def)

lemma checkPerformance_strip:
  assumes "canonicalsVoid doc"
  shows "checkPerformance (stripCanonicalDoc doc) = checkPerformance doc"
proof -
  note q = tag_query_strip[OF assms]
  have img: "length (querySelectorAll (stripCanonicalDoc doc) [[Tag ''img'']]) =
             length (querySelectorAll doc [[Tag ''img'']])"
    by (rule observable_parts(1), rule q) simp
  have scr: "map textContent (querySelectorAll (stripCanonicalDoc doc) [[Tag ''script'', NotSel (HasAttr ''src'')]]) =
             map textContent (querySelectorAll doc [[Tag ''script'', NotSel (HasAttr ''src'')]])"
    by (rule observable_parts(4), rule q) simp
  have large: "length (filter (\<lambda>script. length (textContent script) > 2000)
                 (querySelectorAll (stripCanonicalDoc doc) [[Tag ''script'', NotSel (HasAttr ''src'')]])) =
               length (filter (\<lambda>script. length (textContent script) > 2000)
                 (querySelectorAll doc [[Tag ''script'', NotSel (HasAttr ''src'')]]))"
    using scr by (rule count_through[where P = "\<lambda>s. length s > 2000"])
  have hs: "map attributes (case head (stripCanonicalDoc doc) of
                Some h \<Rightarrow> elementQuerySelectorAll h [[Tag ''script'', HasAttr ''src'']] | None \<Rightarrow> []) =
            map attributes (case head doc of
                Some h \<Rightarrow> elementQuerySelectorAll h [[Tag ''script'', HasAttr ''src'']] | None \<Rightarrow> [])"
  proof (cases "head doc")
    case None
    then show ?thesis by (simp add: head_strip)
  next
    case (Some h)
    have "voidIn h"
      using canonicalsVoid_voidIn[OF assms] elements_child[OF head_child[OF Some]]
      by (auto simp: voidIn_iff)
    then have "map observable (elementQuerySelectorAll (stripCanonical h) [[Tag ''script'', HasAttr ''src'']]) =
               map observable (elementQuerySelectorAll h [[Tag ''script'', HasAttr ''src'']])"
      by (rule element_query_strip) (rule tag_misses_canonical, simp)
    then have "map attributes (elementQuerySelectorAll (stripCanonical h) [[Tag ''script'', HasAttr ''src'']]) =
               map attributes (elementQuerySelectorAll h [[Tag ''script'', HasAttr ''src'']])"
      by (rule observable_parts(3))
    then show ?thesis using Some by (simp add: head_strip)
  qed
  have blocking: "length (filter (\<lambda>script. \<not> hasAttribute script ''async'' \<and> \<not> hasAttribute script ''defer'')
                 (case head (stripCanonicalDoc doc) of
                    Some h \<Rightarrow> elementQuerySelectorAll h [[Tag ''script'', HasAttr ''src'']] | None \<Rightarrow> [])) =
               length (filter (\<lambda>script. \<not> hasAttribute script ''async'' \<and> \<not> hasAttribute script ''defer'')
                 (case head doc of
                    Some h \<Rightarrow> elementQuerySelectorAll h [[Tag ''script'', HasAttr ''src'']] | None \<Rightarrow> []))"
    unfolding hasAttribute_def getAttribute_def
    using hs by (rule count_through[where P = "\<lambda>ats. \<not> map_of ats ''async'' \<noteq> None \<and> \<not> map_of ats ''defer'' \<noteq> None"])
  show ?thesis
    unfolding checkPerformance_parts img large blocking ..
qed

lemma checkStructure_strip:
  assumes "canonicalsVoid doc" "canonicalsUnstyled doc"
  shows "checkStructure (stripCanonicalDoc doc) = checkStructure doc"
proof -
  note q = tag_query_strip[OF assms(1)]
  have h1: "length (querySelectorAll (stripCanonicalDoc doc) [[Tag ''h1'']]) =
            length (querySelectorAll doc [[Tag ''h1'']])"
    by (rule observable_parts(1), rule q) simp
  have "map tagName (querySelectorAll (stripCanonicalDoc doc) headingSelector) =
        map tagName (querySelectorAll doc headingSelector)"
    using assms(1) headings_miss_canonical by (intro observable_parts(2) query_strip) auto
  then have loop: "headingLoop (querySelectorAll (stripCanonicalDoc doc) headingSelector) (Some 0) =
                   headingLoop (querySelectorAll doc headingSelector) (Some 0)"
    by (rule headingLoop_tagNames)
  have style: "length (querySelectorAll (stripCanonicalDoc doc) [[HasAttr ''style'']]) =
               length (querySelectorAll doc [[HasAttr ''style'']])"
  proof (rule observable_parts(1), rule query_strip[OF assms(1)])
    fix e assume "e \<in> set (elements (documentElement doc))" "matches canonicalSelector e"
    with assms(2) show "\<not> matches [[HasAttr ''style'']] e"
      by (auto simp: canonicalsUnstyled_def list_all_iff querySelectorAll_def matches_attr)
  qed
  show ?thesis
    unfolding checkStructure_parts h1 loop style ..
qed


lemma strip_no_canonical:
  "\<forall>e\<in>set (elements n). \<not> matches canonicalSelector e \<Longrightarrow> stripCanonical n = n"
proof (induction n)
  case (Element t ats cs)
  have kids: "\<forall>e\<in>set (elements c). \<not> matches canonicalSelector e" if "c \<in> set cs" for c
    using Element.prems that by auto
  have keep: "\<not> matches canonicalSelector c" if "c \<in> set cs" for c
  proof
    assume m: "matches canonicalSelector c"
    then have "c \<in> set (elements c)"
      by (cases c) (auto simp: matches_def canonicalSelector_def)
    with kids[OF that] m show False by auto
  qed
  have "filter (\<lambda>c. \<not> matches canonicalSelector c) cs = cs"
    using keep by (simp add: filter_id_conv)
  moreover have "map stripCanonical cs = cs"
    using Element.IH kids by (simp add: map_idI)
  ultimately show ?case by simp
qed simp_all

lemma forest_strip_nodes:
  assumes ih: "\<And>c. c \<in> set cs \<Longrightarrow>
                 filter (matches sel) (elements (stripCanonical c)) =
                 map stripCanonical (filter (matches sel) (elements c))"
    and void: "\<And>c. c \<in> set cs \<Longrightarrow> voidIn c"
    and miss: "\<And>c. c \<in> set cs \<Longrightarrow> matches canonicalSelector c \<Longrightarrow> \<not> matches sel c"
  shows "filter (matches sel)
           (concat (map elements (map stripCanonical (filter (\<lambda>c. \<not> matches canonicalSelector c) cs)))) =
         map stripCanonical (filter (matches sel) (concat (map elements cs)))"
  using assms
proof (induction cs)
  case Nil
  then show ?case by simp
next
  case (Cons c cs)
  then have rest: "filter (matches sel)
           (concat (map elements (map stripCanonical (filter (\<lambda>c. \<not> matches canonicalSelector c) cs)))) =
         map stripCanonical (filter (matches sel) (concat (map elements cs)))"
    by simp
  show ?case
  proof (cases "matches canonicalSelector c")
    case True
    with Cons.prems(2)[of c] have "elements c = [c]" by (simp add: canonical_void_elements)
    with True Cons.prems(3)[of c] rest show ?thesis by simp
  next
    case False
    with Cons.prems(1)[of c] rest show ?thesis by simp
  qed
qed

lemma elements_strip_nodes:
  assumes "voidIn n"
    and "\<And>e. e \<in> set (elements n) \<Longrightarrow> matches canonicalSelector e \<Longrightarrow> \<not> matches sel e"
  shows "filter (matches sel) (elements (stripCanonical n)) =
         map stripCanonical (filter (matches sel) (elements n))"
  using assms
proof (induction n)
  case (Element t ats cs)
  have kids: "filter (matches sel)
           (concat (map elements (map stripCanonical (filter (\<lambda>c. \<not> matches canonicalSelector c) cs)))) =
         map stripCanonical (filter (matches sel) (concat (map elements cs)))"
  proof (rule forest_strip_nodes)
    fix c assume c: "c \<in> set cs"
    then show "voidIn c" using Element.prems(1) by (rule voidIn_child[rotated])
    show "filter (matches sel) (elements (stripCanonical c)) =
          map stripCanonical (filter (matches sel) (elements c))"
      using c Element.prems(2) voidIn_child[OF Element.prems(1) c]
      by (intro Element.IH) auto
    assume "matches canonicalSelector c"
    moreover from this have "c \<in> set (elements c)"
      by (cases c) (auto simp: matches_def canonicalSelector_def)
    ultimately show "\<not> matches sel c" using c Element.prems(2)[of c] by auto
  qed
  have m: "matches sel (stripCanonical (Element t ats cs)) = matches sel (Element t ats cs)"
    by (rule matches_strip)
  show ?case
    using kids m by (simp del: matches_strip)
qed simp_all

lemma title_strip:
  assumes "canonicalsVoid doc" "canonicalsOutsideTitle doc"
  shows "querySelector (stripCanonicalDoc doc) [[Tag ''title'']] = querySelector doc [[Tag ''title'']]"
proof -
  have q: "querySelectorAll (stripCanonicalDoc doc) [[Tag ''title'']] =
           map stripCanonical (querySelectorAll doc [[Tag ''title'']])"
    unfolding querySelectorAll_def documentElement_strip
    using canonicalsVoid_voidIn[OF assms(1)] tag_misses_canonical[of "''title''"]
    by (intro elements_strip_nodes) auto
  show ?thesis
  proof (cases "querySelectorAll doc [[Tag ''title'']]")
    case Nil
    with q show ?thesis by (simp add: querySelector_def)
  next
    case (Cons t ts)
    then have t: "querySelector doc [[Tag ''title'']] = Some t" by (simp add: querySelector_def)
    with assms(2) have none: "elementQuerySelectorAll t canonicalSelector = []"
      by (simp add: canonicalsOutsideTitle_def)
    have "t \<in> set (querySelectorAll doc [[Tag ''title'']])" using Cons by simp
    then have title: "isElement t ''title''" by (simp add: querySelectorAll_def matches_tag)
    then have self: "\<not> matches canonicalSelector t"
      using canonical_is_link isElement_unique by fastforce
    have "\<forall>e\<in>set (elements t). \<not> matches canonicalSelector e"
    proof (cases t)
      case (Element tag ats cs)
      with none have "\<forall>e\<in>set (concat (map elements cs)). \<not> matches canonicalSelector e"
        by (simp add: elementQuerySelectorAll_def filter_empty_conv)
      with self Element show ?thesis by simp
    qed simp_all
    then have "stripCanonical t = t" by (rule strip_no_canonical)
    with q Cons t show ?thesis by (simp add: querySelector_def)
  qed
qed

lemma checkSEO_canonical:
  assumes "stripCanonicalDoc d1 = stripCanonicalDoc d2"
    and "canonicalsVoid d1" "canonicalsVoid d2"
    and "canonicalsOutsideTitle d1" "canonicalsOutsideTitle d2"
  shows "checkSEO roundTrip d1 = checkSEO roundTrip d2"
proof -
  have t: "querySelector d1 [[Tag ''title'']] = querySelector d2 [[Tag ''title'']]"
    using title_strip[OF assms(2,4)] title_strip[OF assms(3,5)] assms(1) by simp
  have none: "(querySelector (stripCanonicalDoc d) [Tag ''meta'' # rest] = None) =
              (querySelector d [Tag ''meta'' # rest] = None)" if "canonicalsVoid d" for d rest
    by (rule query_strip_None, rule tag_query_strip[OF that]) simp
  have d: "(querySelector d1 [[Tag ''meta'', AttrEq ''name'' ''description'']] = None) =
           (querySelector d2 [[Tag ''meta'', AttrEq ''name'' ''description'']] = None)"
    using none[OF assms(2)] none[OF assms(3)] assms(1) by simp
  have v: "(querySelector d1 [[Tag ''meta'', AttrEq ''name'' ''viewport'']] = None) =
           (querySelector d2 [[Tag ''meta'', AttrEq ''name'' ''viewport'']] = None)"
    using none[OF assms(2)] none[OF assms(3)] assms(1) by simp
  show ?thesis
    unfolding checkSEO_parts t d v ..
qed


section \<open>The claims\<close>






text \<open>
  Claim C3 (group ordering). The report is the issues of \<open>checkSEO\<close>,
  \<open>checkAccessibility\<close>, \<open>checkStructure\<close> and \<open>checkPerformance\<close> in this order; every
  issue of a checker has the checker's category, so the categories of the report are a
  run of \<open>SEO\<close>, then of \<open>Accessibility\<close>, of \<open>Structure\<close> and of \<open>Performance\<close>; and
  the titles of the report appear in the order of the rules.
\<close>

theorem group_ordering:
  "allIssues roundTrip doc =
     checkSEO roundTrip doc @ checkAccessibility doc @ checkStructure doc @ checkPerformance doc \<and>
   (\<forall>i\<in>set (checkSEO roundTrip doc). category i = ''SEO'') \<and>
   (\<forall>i\<in>set (checkAccessibility doc). category i = ''Accessibility'') \<and>
   (\<forall>i\<in>set (checkStructure doc). category i = ''Structure'') \<and>
   (\<forall>i\<in>set (checkPerformance doc). category i = ''Performance'') \<and>
   map category (allIssues roundTrip doc) =
     replicate (length (checkSEO roundTrip doc)) ''SEO'' @
     replicate (length (checkAccessibility doc)) ''Accessibility'' @
     replicate (length (checkStructure doc)) ''Structure'' @
     replicate (length (checkPerformance doc)) ''Performance'' \<and>
   subseq (map title (allIssues roundTrip doc)) ruleTitles"
proof (intro conjI ballI)
  show a: "allIssues roundTrip doc =
     checkSEO roundTrip doc @ checkAccessibility doc @ checkStructure doc @ checkPerformance doc"
    by (simp add: allIssues_def)
  show "map category (allIssues roundTrip doc) =
     replicate (length (checkSEO roundTrip doc)) ''SEO'' @
     replicate (length (checkAccessibility doc)) ''Accessibility'' @
     replicate (length (checkStructure doc)) ''Structure'' @
     replicate (length (checkPerformance doc)) ''Performance''"
    unfolding a map_append
    by (simp only: map_const[OF seo_category] map_const[OF a11y_category]
        map_const[OF structure_category] map_const[OF performance_category])
  have "subseq (map title (checkSEO roundTrip doc) @ map title (checkAccessibility doc) @
                map title (checkStructure doc) @ map title (checkPerformance doc))
          ([''Missing <title> tag'', ''Title too short'', ''Title too long'',
            ''Missing Meta Description'', ''Missing Viewport Meta Tag''] @
           [''Images missing Alt text'', ''Non-descriptive Link Text'', ''No Semantic Landmarks Found''] @
           [''Missing H1 Heading'', ''Multiple H1 Headings'', ''Skipped Heading Levels'',
            ''Heavy use of Inline Styles''] @
           [''High Image Count'', ''Large Inline Scripts'', ''Render-blocking Scripts''])"
    by (intro list_emb_append_mono seo_titles a11y_titles structure_titles performance_titles)
  then show "subseq (map title (allIssues roundTrip doc)) ruleTitles"
    by (simp add: a ruleTitles_def)
qed (simp_all add: seo_category a11y_category structure_category performance_category)

text \<open>A document with 31 images and nothing else has issues in all four categories.\<close>

theorem group_ordering_witness:
  "map category (allIssues exampleRoundTrip (htmlDocument [] (replicate 31 (Element ''img'' [] [])))) =
     [''SEO'', ''SEO'', ''SEO'', ''Accessibility'', ''Accessibility'', ''Structure'', ''Performance''] \<and>
   map title (allIssues exampleRoundTrip (htmlDocument [] (replicate 31 (Element ''img'' [] [])))) =
     [''Missing <title> tag'', ''Missing Meta Description'', ''Missing Viewport Meta Tag'',
      ''Images missing Alt text'', ''No Semantic Landmarks Found'', ''Missing H1 Heading'',
      ''High Image Count'']"
proof (intro conjI)
  note rule = group_ordering[of exampleRoundTrip "htmlDocument [] (replicate 31 (Element ''img'' [] []))"]
  show "map category (allIssues exampleRoundTrip (htmlDocument [] (replicate 31 (Element ''img'' [] [])))) =
     [''SEO'', ''SEO'', ''SEO'', ''Accessibility'', ''Accessibility'', ''Structure'', ''Performance'']"
    by (rule trans[OF rule[THEN conjunct2, THEN conjunct2, THEN conjunct2, THEN conjunct2,
            THEN conjunct2, THEN conjunct1]]) code_simp
  show "map title (allIssues exampleRoundTrip (htmlDocument [] (replicate 31 (Element ''img'' [] [])))) =
     [''Missing <title> tag'', ''Missing Meta Description'', ''Missing Viewport Meta Tag'',
      ''Images missing Alt text'', ''No Semantic Landmarks Found'', ''Missing H1 Heading'',
      ''High Image Count'']"
    by (rule trans[OF arg_cong[where f = "map title", OF rule[THEN conjunct1]]]) code_simp
qed

text \<open>
  Claim C4 (H1 count). With \<open>n\<close> the number of \<open>h1\<close> elements, \<open>checkStructure\<close> emits
  the one error \<open>Missing H1 Heading\<close> when \<open>n = 0\<close>, no H1 issue when \<open>n = 1\<close>, and the
  one warning \<open>Multiple H1 Headings\<close> with \<open>n\<close> in its description when \<open>n > 1\<close>.
\<close>

theorem h1_count_mapping:
  "filter (\<lambda>i. title i \<in> {''Missing H1 Heading'', ''Multiple H1 Headings''}) (checkStructure doc) =
     (let n = length (filter (\<lambda>e. isElement e ''h1'') (elements (documentElement doc)))
      in if n = 0 then [missingH1Issue] else if n = 1 then [] else [multipleH1Issue n]) \<and>
   (category missingH1Issue, severity missingH1Issue) = (''Structure'', ''error'') \<and>
   (category (multipleH1Issue n), severity (multipleH1Issue n), description (multipleH1Issue n)) =
     (''Structure'', ''warning'', ''Found '' @ toString n @ '' <h1> tags.'')"
proof (intro conjI)
  show "filter (\<lambda>i. title i \<in> {''Missing H1 Heading'', ''Multiple H1 Headings''}) (checkStructure doc) =
     (let n = length (filter (\<lambda>e. isElement e ''h1'') (elements (documentElement doc)))
      in if n = 0 then [missingH1Issue] else if n = 1 then [] else [multipleH1Issue n])"
    by (auto simp add: checkStructure_parts querySelectorAll_def Let_def matches_tag
        dest: nat_trichotomy_list)
qed (simp_all add: missingH1Issue_def multipleH1Issue_def)

text \<open>Documents with no, one and three \<open>h1\<close> elements.\<close>

theorem h1_count_mapping_witness:
  "filter (\<lambda>i. title i \<in> {''Missing H1 Heading'', ''Multiple H1 Headings''})
     (checkStructure (htmlDocument [] [heading ''h2''])) = [missingH1Issue] \<and>
   filter (\<lambda>i. title i \<in> {''Missing H1 Heading'', ''Multiple H1 Headings''})
     (checkStructure (htmlDocument [] [heading ''h1'', heading ''h2''])) = [] \<and>
   filter (\<lambda>i. title i \<in> {''Missing H1 Heading'', ''Multiple H1 Headings''})
     (checkStructure (htmlDocument [] [heading ''h1'', Element ''div'' [] [heading ''h1''], heading ''h1''])) =
     [multipleH1Issue 3] \<and>
   description (multipleH1Issue 3) = ''Found 3 <h1> tags.''"
proof (intro conjI)
  note rule = h1_count_mapping[where n = 3, THEN conjunct1]
  show "filter (\<lambda>i. title i \<in> {''Missing H1 Heading'', ''Multiple H1 Headings''})
     (checkStructure (htmlDocument [] [heading ''h2''])) = [missingH1Issue]"
    by (rule trans[OF rule]) code_simp
  show "filter (\<lambda>i. title i \<in> {''Missing H1 Heading'', ''Multiple H1 Headings''})
     (checkStructure (htmlDocument [] [heading ''h1'', heading ''h2''])) = []"
    by (rule trans[OF rule]) code_simp
  show "filter (\<lambda>i. title i \<in> {''Missing H1 Heading'', ''Multiple H1 Headings''})
     (checkStructure (htmlDocument [] [heading ''h1'', Element ''div'' [] [heading ''h1''], heading ''h1''])) =
     [multipleH1Issue 3]"
    by (rule trans[OF rule]) code_simp
  show "description (multipleH1Issue 3) = ''Found 3 <h1> tags.''"
    by code_simp
qed

text \<open>
  Claim C5 (image alt text). With \<open>n\<close> the number of \<open>img\<close> elements that have no
  \<open>alt\<close> attribute, \<open>checkAccessibility\<close> emits the one error
  \<open>Images missing Alt text\<close> with \<open>n\<close> in its description when \<open>n > 0\<close>, and no such
  issue when \<open>n = 0\<close>. An attribute is present when its name is among the element's
  attributes, whatever its value.
\<close>

theorem alt_text_coverage:
  "filter (\<lambda>i. title i = ''Images missing Alt text'') (checkAccessibility doc) =
     (let n = length (filter (\<lambda>e. isElement e ''img'' \<and> \<not> hasAttribute e ''alt'')
                       (elements (documentElement doc)))
      in if n > 0 then [missingAltIssue n] else []) \<and>
   hasAttribute e a = (a \<in> fst ` set (attributes e)) \<and>
   (category (missingAltIssue n), severity (missingAltIssue n), description (missingAltIssue n)) =
     (''Accessibility'', ''error'', ''Found '' @ toString n @ '' <img> tag(s) without an alt attribute.'')"
proof (intro conjI)
  show "filter (\<lambda>i. title i = ''Images missing Alt text'') (checkAccessibility doc) =
     (let n = length (filter (\<lambda>e. isElement e ''img'' \<and> \<not> hasAttribute e ''alt'')
                       (elements (documentElement doc)))
      in if n > 0 then [missingAltIssue n] else [])"
    by (simp add: checkAccessibility_parts querySelectorAll_def Let_def matches_tag)
  show "hasAttribute e a = (a \<in> fst ` set (attributes e))"
    by (simp add: hasAttribute_def getAttribute_def map_of_eq_None_iff)
qed (simp_all add: missingAltIssue_def)

text \<open>
  Three images, one with \<open>alt=""\<close> and two without \<open>alt\<close>: one error that mentions 2.
  A single image with \<open>alt=""\<close>: no issue.
\<close>

theorem alt_text_coverage_witness:
  "filter (\<lambda>i. title i = ''Images missing Alt text'')
     (checkAccessibility (htmlDocument []
        [Element ''img'' [(''src'', ''a.png''), (''alt'', '''')] [],
         Element ''img'' [(''src'', ''b.png'')] [],
         Element ''p'' [] [Element ''img'' [] []]])) = [missingAltIssue 2] \<and>
   description (missingAltIssue 2) = ''Found 2 <img> tag(s) without an alt attribute.'' \<and>
   hasAttribute (Element ''img'' [(''src'', ''a.png''), (''alt'', '''')] []) ''alt'' \<and>
   filter (\<lambda>i. title i = ''Images missing Alt text'')
     (checkAccessibility (htmlDocument [] [Element ''img'' [(''alt'', '''')] []])) = []"
proof (intro conjI)
  note rule = alt_text_coverage[where n = 2 and e = "Text []" and a = "[]", THEN conjunct1]
  show "filter (\<lambda>i. title i = ''Images missing Alt text'')
     (checkAccessibility (htmlDocument []
        [Element ''img'' [(''src'', ''a.png''), (''alt'', '''')] [],
         Element ''img'' [(''src'', ''b.png'')] [],
         Element ''p'' [] [Element ''img'' [] []]])) = [missingAltIssue 2]"
    by (rule trans[OF rule]) code_simp
  show "description (missingAltIssue 2) = ''Found 2 <img> tag(s) without an alt attribute.''"
    by code_simp
  show "hasAttribute (Element ''img'' [(''src'', ''a.png''), (''alt'', '''')] []) ''alt''"
    by code_simp
  show "filter (\<lambda>i. title i = ''Images missing Alt text'')
     (checkAccessibility (htmlDocument [] [Element ''img'' [(''alt'', '''')] []])) = []"
    by (rule trans[OF rule]) code_simp
qed

text \<open>
  Claim C6 (generic link text). With \<open>n\<close> the number of \<open>a\<close> elements whose text,
  trimmed and in lower case, is one of \<open>click here\<close>, \<open>read more\<close>, \<open>more\<close>, \<open>link\<close>,
  \<open>here\<close>, \<open>checkAccessibility\<close> emits the one warning \<open>Non-descriptive Link Text\<close>
  with \<open>n\<close> in its description when \<open>n > 0\<close>, and no such issue otherwise. The text
  \<open>Click here\<close> followed by a space counts; \<open>click here now\<close> does not.
\<close>

theorem generic_link_text:
  "filter (\<lambda>i. title i = ''Non-descriptive Link Text'') (checkAccessibility doc) =
     (let n = length (filter (\<lambda>e. isElement e ''a'' \<and>
                                  toLowerCase (trim (textContent e)) \<in>
                                    {''click here'', ''read more'', ''more'', ''link'', ''here''})
                       (elements (documentElement doc)))
      in if n > 0 then [genericLinkIssue n] else []) \<and>
   (category (genericLinkIssue n), severity (genericLinkIssue n), description (genericLinkIssue n)) =
     (''Accessibility'', ''warning'',
      ''Found '' @ toString n @ '' link(s) satisfying generic text like \"click here\".'') \<and>
   toLowerCase (trim ''Click here '') \<in> {''click here'', ''read more'', ''more'', ''link'', ''here''} \<and>
   toLowerCase (trim ''click here now'') \<notin> {''click here'', ''read more'', ''more'', ''link'', ''here''}"
proof (intro conjI)
  show "filter (\<lambda>i. title i = ''Non-descriptive Link Text'') (checkAccessibility doc) =
     (let n = length (filter (\<lambda>e. isElement e ''a'' \<and>
                                  toLowerCase (trim (textContent e)) \<in>
                                    {''click here'', ''read more'', ''more'', ''link'', ''here''})
                       (elements (documentElement doc)))
      in if n > 0 then [genericLinkIssue n] else [])"
    by (simp add: checkAccessibility_parts querySelectorAll_def Let_def matches_tag genericTerms_def)
  show "(category (genericLinkIssue n), severity (genericLinkIssue n), description (genericLinkIssue n)) =
     (''Accessibility'', ''warning'',
      ''Found '' @ toString n @ '' link(s) satisfying generic text like \"click here\".'')"
    by (simp add: genericLinkIssue_def)
  show "toLowerCase (trim ''Click here '') \<in> {''click here'', ''read more'', ''more'', ''link'', ''here''}"
    by code_simp
  show "toLowerCase (trim ''click here now'') \<notin> {''click here'', ''read more'', ''more'', ''link'', ''here''}"
    by code_simp
qed

text \<open>One link of each kind, and a document of five links of which two count.\<close>

theorem generic_link_text_witness:
  "filter (\<lambda>i. title i = ''Non-descriptive Link Text'')
     (checkAccessibility (htmlDocument [] [anchor ''Click here ''])) = [genericLinkIssue 1] \<and>
   filter (\<lambda>i. title i = ''Non-descriptive Link Text'')
     (checkAccessibility (htmlDocument [] [anchor ''click here now''])) = [] \<and>
   filter (\<lambda>i. title i = ''Non-descriptive Link Text'')
     (checkAccessibility (htmlDocument []
        [anchor ''Click here '', anchor ''click here now'', anchor ''Pricing'',
         Element ''a'' [] [Element ''b'' [] [Text ''READ''], Text '' more''], anchor ''more or less''])) =
     [genericLinkIssue 2]"
proof (intro conjI)
  note rule = generic_link_text[where n = 1, THEN conjunct1]
  show "filter (\<lambda>i. title i = ''Non-descriptive Link Text'')
     (checkAccessibility (htmlDocument [] [anchor ''Click here ''])) = [genericLinkIssue 1]"
    by (rule trans[OF rule]) code_simp
  show "filter (\<lambda>i. title i = ''Non-descriptive Link Text'')
     (checkAccessibility (htmlDocument [] [anchor ''click here now''])) = []"
    by (rule trans[OF rule]) code_simp
  show "filter (\<lambda>i. title i = ''Non-descriptive Link Text'')
     (checkAccessibility (htmlDocument []
        [anchor ''Click here '', anchor ''click here now'', anchor ''Pricing'',
         Element ''a'' [] [Element ''b'' [] [Text ''READ''], Text '' more''], anchor ''more or less''])) =
     [genericLinkIssue 2]"
    by (rule trans[OF rule]) code_simp
qed

text \<open>
  Claim C7 (render-blocking scripts). With \<open>n\<close> the number of \<open>script\<close> elements below
  the document's \<open>head\<close> that have a \<open>src\<close> attribute and neither \<open>async\<close> nor \<open>defer\<close>,
  \<open>checkPerformance\<close> emits the one warning \<open>Render-blocking Scripts\<close> with \<open>n\<close> in its
  description when \<open>n > 0\<close>; a document with no \<open>head\<close> has no such issue.
\<close>

theorem render_blocking_scripts:
  "filter (\<lambda>i. title i = ''Render-blocking Scripts'') (checkPerformance doc) =
     (case head doc of
        None \<Rightarrow> []
      | Some h \<Rightarrow>
          (let n = length (filter (\<lambda>e. (isElement e ''script'' \<and> hasAttribute e ''src'') \<and>
                                       \<not> hasAttribute e ''async'' \<and> \<not> hasAttribute e ''defer'')
                            (concat (map elements (childNodes h))))
           in if n > 0 then [blockingScriptsIssue n] else [])) \<and>
   (category (blockingScriptsIssue n), severity (blockingScriptsIssue n), description (blockingScriptsIssue n)) =
     (''Performance'', ''warning'',
      ''Found '' @ toString n @ '' script(s) in <head> that are not async or defer.'')"
proof (intro conjI)
  show "filter (\<lambda>i. title i = ''Render-blocking Scripts'') (checkPerformance doc) =
     (case head doc of
        None \<Rightarrow> []
      | Some h \<Rightarrow>
          (let n = length (filter (\<lambda>e. (isElement e ''script'' \<and> hasAttribute e ''src'') \<and>
                                       \<not> hasAttribute e ''async'' \<and> \<not> hasAttribute e ''defer'')
                            (concat (map elements (childNodes h))))
           in if n > 0 then [blockingScriptsIssue n] else []))"
    by (cases "head doc")
       (simp_all add: checkPerformance_parts elementQuerySelectorAll_def Let_def matches_script_src)
qed (simp add: blockingScriptsIssue_def)

text \<open>
  A head with five scripts of which two block (one inside \<open>noscript\<close>) and a blocking
  script in the body; a document with no head.
\<close>

theorem render_blocking_scripts_witness:
  "filter (\<lambda>i. title i = ''Render-blocking Scripts'')
     (checkPerformance (htmlDocument
        [script [(''src'', ''a.js'')], script [(''src'', ''b.js''), (''async'', '''')],
         script [(''src'', ''c.js''), (''defer'', '''')], script [],
         Element ''noscript'' [] [script [(''src'', ''d.js'')]]]
        [script [(''src'', ''e.js'')]])) = [blockingScriptsIssue 2] \<and>
   head (Document (Element ''html'' [] [Element ''body'' [] [script [(''src'', ''e.js'')]]])) = None \<and>
   checkPerformance (Document (Element ''html'' [] [Element ''body'' [] [script [(''src'', ''e.js'')]]])) = [] \<and>
   filter (\<lambda>i. title i = ''Render-blocking Scripts'')
     (checkPerformance (Document (Element ''html'' [] [Element ''body'' [] [script [(''src'', ''e.js'')]]]))) = []"
proof (intro conjI)
  note rule = render_blocking_scripts[where n = 2, THEN conjunct1]
  show "filter (\<lambda>i. title i = ''Render-blocking Scripts'')
     (checkPerformance (htmlDocument
        [script [(''src'', ''a.js'')], script [(''src'', ''b.js''), (''async'', '''')],
         script [(''src'', ''c.js''), (''defer'', '''')], script [],
         Element ''noscript'' [] [script [(''src'', ''d.js'')]]]
        [script [(''src'', ''e.js'')]])) = [blockingScriptsIssue 2]"
    by (rule trans[OF rule]) code_simp
  show "head (Document (Element ''html'' [] [Element ''body'' [] [script [(''src'', ''e.js'')]]])) = None"
    by code_simp
  show "checkPerformance (Document (Element ''html'' [] [Element ''body'' [] [script [(''src'', ''e.js'')]]])) = []"
    by code_simp
  show "filter (\<lambda>i. title i = ''Render-blocking Scripts'')
     (checkPerformance (Document (Element ''html'' [] [Element ''body'' [] [script [(''src'', ''e.js'')]]]))) = []"
    by (rule trans[OF rule]) code_simp
qed

text \<open>
  Claim C8 (inline styles). With \<open>n\<close> the number of elements that have a \<open>style\<close>
  attribute, whatever its value, \<open>checkStructure\<close> emits the one info issue
  \<open>Heavy use of Inline Styles\<close> with \<open>n\<close> in its description when \<open>n > 10\<close>, and no such
  issue when \<open>n \<le> 10\<close>.
\<close>

theorem inline_style_threshold:
  "filter (\<lambda>i. title i = ''Heavy use of Inline Styles'') (checkStructure doc) =
     (let n = length (filter (\<lambda>e. hasAttribute e ''style'') (elements (documentElement doc)))
      in if n > 10 then [inlineStylesIssue n] else []) \<and>
   hasAttribute (Element t ((''style'', v) # ats) cs) ''style'' \<and>
   (category (inlineStylesIssue n), severity (inlineStylesIssue n), description (inlineStylesIssue n)) =
     (''Structure'', ''info'', ''Found '' @ toString n @ '' elements with inline 'style' attributes.'')"
proof (intro conjI)
  show "filter (\<lambda>i. title i = ''Heavy use of Inline Styles'') (checkStructure doc) =
     (let n = length (filter (\<lambda>e. hasAttribute e ''style'') (elements (documentElement doc)))
      in if n > 10 then [inlineStylesIssue n] else [])"
    by (simp add: checkStructure_parts querySelectorAll_def Let_def matches_attr)
qed (simp_all add: inlineStylesIssue_def hasAttribute_def getAttribute_def)

text \<open>Ten styled elements; eleven, one of them with an empty \<open>style\<close>.\<close>

theorem inline_style_threshold_witness:
  "filter (\<lambda>i. title i = ''Heavy use of Inline Styles'')
     (checkStructure (htmlDocument [] (replicate 10 styled))) = [] \<and>
   filter (\<lambda>i. title i = ''Heavy use of Inline Styles'')
     (checkStructure (htmlDocument [] (Element ''div'' [(''style'', '''')] [] # replicate 10 styled))) =
     [inlineStylesIssue 11] \<and>
   description (inlineStylesIssue 11) = ''Found 11 elements with inline 'style' attributes.''"
proof (intro conjI)
  note rule = inline_style_threshold[where n = 11 and t = "[]" and v = "[]" and ats = "[]" and cs = "[]",
      THEN conjunct1]
  show "filter (\<lambda>i. title i = ''Heavy use of Inline Styles'')
     (checkStructure (htmlDocument [] (replicate 10 styled))) = []"
    by (rule trans[OF rule]) code_simp
  show "filter (\<lambda>i. title i = ''Heavy use of Inline Styles'')
     (checkStructure (htmlDocument [] (Element ''div'' [(''style'', '''')] [] # replicate 10 styled))) =
     [inlineStylesIssue 11]"
    by (rule trans[OF rule]) code_simp
  show "description (inlineStylesIssue 11) = ''Found 11 elements with inline 'style' attributes.''"
    by code_simp
qed

text \<open>
  Claim C9 (minimal document). The document \<open><html><head></head><body></body></html>\<close>
  has exactly five issues: the three SEO errors for the missing title, meta description
  and viewport, the Accessibility info for the missing landmarks and the Structure error
  for the missing \<open>h1\<close>, pushed in this order; it has no headings and no Performance
  issue.
\<close>

theorem minimal_document:
  "allIssues roundTrip emptyDocument =
     [missingTitleIssue, missingDescriptionIssue, missingViewportIssue, noLandmarksIssue, missingH1Issue] \<and>
   map (\<lambda>i. (category i, severity i, title i)) (allIssues roundTrip emptyDocument) =
     [(''SEO'', ''error'', ''Missing <title> tag''),
      (''SEO'', ''error'', ''Missing Meta Description''),
      (''SEO'', ''error'', ''Missing Viewport Meta Tag''),
      (''Accessibility'', ''info'', ''No Semantic Landmarks Found''),
      (''Structure'', ''error'', ''Missing H1 Heading'')] \<and>
   checkPerformance emptyDocument = [] \<and>
   checkStructure emptyDocument = [missingH1Issue] \<and>
   checkAccessibility emptyDocument = [noLandmarksIssue] \<and>
   querySelectorAll emptyDocument headingSelector = []"
  by (intro conjI; code_simp)

text \<open>The five issues as a set.\<close>

theorem minimal_document_witness:
  "length (allIssues exampleRoundTrip emptyDocument) = 5 \<and>
   set (allIssues exampleRoundTrip emptyDocument) =
     {missingTitleIssue, missingDescriptionIssue, missingViewportIssue, missingH1Issue, noLandmarksIssue}"
  using minimal_document[of exampleRoundTrip] by auto

text \<open>
  Claim C10 (canonical links), as amended. Take two documents that differ only in the
  presence or content of canonical links, every canonical link without children. Then
  \<open>checkAccessibility\<close> and \<open>checkPerformance\<close> return the same issues; \<open>checkSEO\<close> does
  when the title element it reads holds no canonical link; \<open>checkStructure\<close> does when no
  canonical link has a \<open>style\<close> attribute; and the whole report is the same under both
  conditions.
\<close>

theorem canonical_noninterference:
  assumes "stripCanonicalDoc d1 = stripCanonicalDoc d2"
    and "canonicalsVoid d1" and "canonicalsVoid d2"
  shows "checkAccessibility d1 = checkAccessibility d2 \<and>
         checkPerformance d1 = checkPerformance d2 \<and>
         (canonicalsOutsideTitle d1 \<and> canonicalsOutsideTitle d2 \<longrightarrow>
            checkSEO roundTrip d1 = checkSEO roundTrip d2) \<and>
         (canonicalsUnstyled d1 \<and> canonicalsUnstyled d2 \<longrightarrow>
            checkStructure d1 = checkStructure d2) \<and>
         (canonicalsOutsideTitle d1 \<and> canonicalsOutsideTitle d2 \<and>
          canonicalsUnstyled d1 \<and> canonicalsUnstyled d2 \<longrightarrow>
            allIssues roundTrip d1 = allIssues roundTrip d2)"
proof -
  have a11y: "checkAccessibility d1 = checkAccessibility d2"
    using checkAccessibility_strip[OF assms(2)] checkAccessibility_strip[OF assms(3)] assms(1) by simp
  have perf: "checkPerformance d1 = checkPerformance d2"
    using checkPerformance_strip[OF assms(2)] checkPerformance_strip[OF assms(3)] assms(1) by simp
  have seo: "checkSEO roundTrip d1 = checkSEO roundTrip d2"
    if "canonicalsOutsideTitle d1" "canonicalsOutsideTitle d2"
    using assms that by (rule checkSEO_canonical)
  have struct: "checkStructure d1 = checkStructure d2"
    if "canonicalsUnstyled d1" "canonicalsUnstyled d2"
    using checkStructure_strip[OF assms(2) that(1)] checkStructure_strip[OF assms(3) that(2)] assms(1)
    by simp
  from a11y perf seo struct show ?thesis by (simp add: allIssues_def)
qed

text \<open>
  A page with and without a canonical link; a page with two canonical links and the page
  with one whose \<open>rel\<close> is written \<open>Canonical\<close>.
\<close>

theorem canonical_noninterference_witness:
  "checkSEO exampleRoundTrip (pageWith [canonicalLink []]) = checkSEO exampleRoundTrip (pageWith []) \<and>
   allIssues exampleRoundTrip (pageWith [canonicalLink []]) = allIssues exampleRoundTrip (pageWith []) \<and>
   allIssues exampleRoundTrip (pageWith [canonicalLink [], canonicalLink [(''hreflang'', ''en'')]]) =
     allIssues exampleRoundTrip (pageWith [Element ''link'' [(''rel'', ''Canonical'')] []])"
proof -
  have s1: "stripCanonicalDoc (pageWith [canonicalLink []]) = stripCanonicalDoc (pageWith [])" by code_simp
  have v1: "canonicalsVoid (pageWith [canonicalLink []])" by code_simp
  have v0: "canonicalsVoid (pageWith [])" by code_simp
  have u1: "canonicalsUnstyled (pageWith [canonicalLink []])" by code_simp
  have u0: "canonicalsUnstyled (pageWith [])" by code_simp
  have o1: "canonicalsOutsideTitle (pageWith [canonicalLink []])" by code_simp
  have o0: "canonicalsOutsideTitle (pageWith [])" by code_simp
  have s2: "stripCanonicalDoc (pageWith [canonicalLink [], canonicalLink [(''hreflang'', ''en'')]]) =
            stripCanonicalDoc (pageWith [Element ''link'' [(''rel'', ''Canonical'')] []])" by code_simp
  have v2: "canonicalsVoid (pageWith [canonicalLink [], canonicalLink [(''hreflang'', ''en'')]])" by code_simp
  have v3: "canonicalsVoid (pageWith [Element ''link'' [(''rel'', ''Canonical'')] []])" by code_simp
  have u2: "canonicalsUnstyled (pageWith [canonicalLink [], canonicalLink [(''hreflang'', ''en'')]])" by code_simp
  have u3: "canonicalsUnstyled (pageWith [Element ''link'' [(''rel'', ''Canonical'')] []])" by code_simp
  have o2: "canonicalsOutsideTitle (pageWith [canonicalLink [], canonicalLink [(''hreflang'', ''en'')]])" by code_simp
  have o3: "canonicalsOutsideTitle (pageWith [Element ''link'' [(''rel'', ''Canonical'')] []])" by code_simp
  show ?thesis
    using canonical_noninterference[OF s1 v1 v0, of exampleRoundTrip]
      canonical_noninterference[OF s2 v2 v3, of exampleRoundTrip] u1 u0 u2 u3 o1 o0 o2 o3
    by simp
qed

text \<open>
  The claim as stated fails, and each of the three conditions is needed.

  A \<open>style\<close> attribute: the inline-style rule counts a canonical link that has one. With
  ten styled paragraphs, the page with such a link has eleven styled elements and the
  page without it has ten; \<open>checkSEO\<close> agrees on the two, the reports differ.

  Children: inside \<open>svg\<close> the parser gives \<open>link\<close> the elements that follow as children.
  With \<open><svg><link rel="canonical"><title>...</title></link></svg>\<close> the title rule finds
  the title inside the link; without the link there is no title.

  A link inside the title: an SVG title is parsed as HTML content and can hold a
  \<open>noscript\<close> with a \<open>link\<close> in it. The title rule measures the start tag of the link,
  50 characters, and 0 characters without the link.
\<close>

theorem canonical_counterexample:
  "stripCanonicalDoc (pageWith [canonicalLink [(''style'', ''display: none'')]]) = stripCanonicalDoc (pageWith []) \<and>
   canonicalsVoid (pageWith [canonicalLink [(''style'', ''display: none'')]]) \<and>
   canonicalsVoid (pageWith []) \<and>
   canonicalsOutsideTitle (pageWith [canonicalLink [(''style'', ''display: none'')]]) \<and>
   canonicalsOutsideTitle (pageWith []) \<and>
   canonicalsUnstyled (pageWith []) \<and>
   checkSEO exampleRoundTrip (pageWith [canonicalLink [(''style'', ''display: none'')]]) =
     checkSEO exampleRoundTrip (pageWith []) \<and>
   allIssues exampleRoundTrip (pageWith [canonicalLink [(''style'', ''display: none'')]]) =
     [missingDescriptionIssue, missingViewportIssue, noLandmarksIssue, missingH1Issue, inlineStylesIssue 11] \<and>
   allIssues exampleRoundTrip (pageWith []) =
     [missingDescriptionIssue, missingViewportIssue, noLandmarksIssue, missingH1Issue] \<and>
   allIssues exampleRoundTrip (pageWith [canonicalLink [(''style'', ''display: none'')]]) \<noteq>
     allIssues exampleRoundTrip (pageWith []) \<and>
   stripCanonicalDoc (svgLinked [Element ''link'' [(''rel'', ''canonical'')]
                                   [Element ''title'' [] [Text ''A page about canonical links'']]]) =
     stripCanonicalDoc (svgLinked []) \<and>
   canonicalsUnstyled (svgLinked [Element ''link'' [(''rel'', ''canonical'')]
                                   [Element ''title'' [] [Text ''A page about canonical links'']]]) \<and>
   canonicalsOutsideTitle (svgLinked [Element ''link'' [(''rel'', ''canonical'')]
                                   [Element ''title'' [] [Text ''A page about canonical links'']]]) \<and>
   canonicalsVoid (svgLinked []) \<and> canonicalsUnstyled (svgLinked []) \<and> canonicalsOutsideTitle (svgLinked []) \<and>
   checkSEO exampleRoundTrip (svgLinked [Element ''link'' [(''rel'', ''canonical'')]
                                   [Element ''title'' [] [Text ''A page about canonical links'']]]) =
     [missingDescriptionIssue, missingViewportIssue] \<and>
   checkSEO exampleRoundTrip (svgLinked []) =
     [missingTitleIssue, missingDescriptionIssue, missingViewportIssue] \<and>
   checkSEO exampleRoundTrip (svgLinked [Element ''link'' [(''rel'', ''canonical'')]
                                   [Element ''title'' [] [Text ''A page about canonical links'']]]) \<noteq>
     checkSEO exampleRoundTrip (svgLinked []) \<and>
   stripCanonicalDoc (svgTitled [Element ''noscript'' [] [canonicalLink []]]) =
     stripCanonicalDoc (svgTitled [Element ''noscript'' [] []]) \<and>
   canonicalsVoid (svgTitled [Element ''noscript'' [] [canonicalLink []]]) \<and>
   canonicalsUnstyled (svgTitled [Element ''noscript'' [] [canonicalLink []]]) \<and>
   canonicalsVoid (svgTitled [Element ''noscript'' [] []]) \<and>
   canonicalsUnstyled (svgTitled [Element ''noscript'' [] []]) \<and>
   canonicalsOutsideTitle (svgTitled [Element ''noscript'' [] []]) \<and>
   checkSEO exampleRoundTrip (svgTitled [Element ''noscript'' [] [canonicalLink []]]) =
     [missingDescriptionIssue, missingViewportIssue] \<and>
   checkSEO exampleRoundTrip (svgTitled [Element ''noscript'' [] []]) =
     [titleTooShortIssue 0, missingDescriptionIssue, missingViewportIssue] \<and>
   checkSEO exampleRoundTrip (svgTitled [Element ''noscript'' [] [canonicalLink []]]) \<noteq>
     checkSEO exampleRoundTrip (svgTitled [Element ''noscript'' [] []])"
  by (intro conjI; code_simp)

end
